theory Spec2Isabelle
  imports Main
begin

section \<open>Values of the host language\<close>

text \<open>
  Objects are known by their identity, a reference. The constructor call \<open>new C()\<close>
  takes the next unused reference.
\<close>

type_synonym ref = nat

text \<open>
  A Number as far as \<open>parseInt\<close> and a port need it: \<open>Num n\<close> is the Number value for the
  mathematical integer \<open>n\<close> (the nearest one, for a magnitude beyond \<open>2\<^sup>5\<^sup>3\<close>; the sign
  of a zero is not kept), \<open>NaN\<close> is not-a-number.
\<close>

datatype js_number = Num int | NaN

datatype error = ListenError js_number

definition isWhiteSpace :: "char \<Rightarrow> bool" where
  "isWhiteSpace c \<longleftrightarrow>
     (of_char c :: nat) = 9 \<or> (of_char c :: nat) = 10 \<or> (of_char c :: nat) = 11 \<or>
     (of_char c :: nat) = 12 \<or> (of_char c :: nat) = 13 \<or> (of_char c :: nat) = 32 \<or>
     (of_char c :: nat) = 160"

definition isDigit :: "char \<Rightarrow> bool" where
  "isDigit c \<longleftrightarrow> 48 \<le> (of_char c :: nat) \<and> (of_char c :: nat) \<le> 57"

definition digitValue :: "char \<Rightarrow> int" where
  "digitValue c = int (of_char c) - 48"

definition mathInt :: "string \<Rightarrow> int" where
  "mathInt Z = foldl (\<lambda>acc c. 10 * acc + digitValue c) 0 Z"

text \<open>
  \<open>parseInt(string, 10)\<close> of the language standard: leading white space is dropped, one sign
  is read, the longest prefix of decimal digits is the value, and no digit at all gives
  \<open>NaN\<close>. A string is taken as its list of code units below 256, of which the white space
  and line terminators are 9 to 13, 32 and 160.
\<close>

definition parseInt10 :: "string \<Rightarrow> js_number" where
  "parseInt10 string =
     (let S = dropWhile isWhiteSpace string;
          sign = (if S \<noteq> [] \<and> hd S = CHR ''-'' then - 1 else (1::int));
          S1 = (if S \<noteq> [] \<and> (hd S = CHR ''+'' \<or> hd S = CHR ''-'') then tl S else S);
          Z = takeWhile isDigit S1
      in if Z = [] then NaN else Num (sign * mathInt Z))"

section \<open>Data model\<close>

text \<open>
  Modelled from the spec: the declarations of \<open>types\<close> that \<open>Application\<close> imports
  (\<open>ApplicationConfig\<close>, \<open>Newable\<close>, \<open>RestControllerConfig\<close>) and the route binding, as
  the data model of the spec gives them. A route binding is an HTTP method, a path and the
  name of the handler; the metadata of a controller is its base path and its ordered route
  bindings.
\<close>

record RouteBinding =
  httpMethod :: string
  path :: string
  handlerName :: string

record RestControllerConfig =
  basePath :: string
  routes :: "RouteBinding list"

text \<open>
  The prototype object of a controller class: the value of its \<open>name\<close> property
  (\<open>None\<close> is \<open>undefined\<close>) and the annotations the decorators recorded on it.
\<close>

record prototype_obj =
  name :: "string option"
  annotations :: RestControllerConfig

text \<open>
  A constructible class (\<open>Newable\<close>): its own name, which is \<open>controllerClass.name\<close>, and
  its prototype. Constructing an instance allocates a new object and does nothing else.
\<close>

record Newable =
  className :: string
  prototype :: prototype_obj

datatype logger = Console | Logger nat

datatype middleware = Routes ref | AllowedMethods ref

text \<open>An entry of the router's \<open>stack\<close>, with the instance and method the handler calls.\<close>

record Layer =
  methods :: "string list"
  layer_path :: string
  handler :: "ref \<times> string"

record AppRouter =
  stack :: "Layer list"

record Koa =
  middleware :: "middleware list"

type_synonym Properties = "string \<rightharpoonup> string"

record Application =
  app :: Koa
  router :: AppRouter
  controllers :: "Newable list"
  properties :: Properties
  logger :: logger
  server :: "ref option"

record ApplicationConfig =
  cfg_propertiesPath :: "string option"
  cfg_controllers :: "Newable list option"
  cfg_logger :: "logger option"

record Server =
  bound_port :: js_number
  listening :: bool

datatype config_file = Unparsable | JsonObject "string \<rightharpoonup> string"

text \<open>What the logger is asked to print: the text of a message is kept as its parts.\<close>

datatype message =
    PropertiesWarning string
  | Started js_number string

text \<open>The calls that reach another component, in the order they are made.\<close>

datatype event =
    New_Properties string logger
  | Get_metadata prototype_obj
  | New_controller Newable ref
  | Configure_endpoints "RouteBinding list" ref string
  | Cache_set "string option" ref
  | Use middleware
  | Listen js_number
  | Close ref
  | Warn logger message
  | Info logger message

text \<open>
  The state of the process: the fields of every Application and Server object by reference,
  the process-wide instance cache, the files on disk, the verdict of the HTTP library on a
  port (whether \<open>listen\<close> throws for it), the next unused reference, and the calls made so far.
\<close>

record state =
  applications :: "ref \<Rightarrow> Application"
  servers :: "ref \<Rightarrow> Server"
  cache :: "string option \<rightharpoonup> ref"
  files :: "string \<rightharpoonup> config_file"
  listen_throws :: "js_number \<Rightarrow> bool"
  next_ref :: ref
  trace :: "event list"

definition emit :: "event \<Rightarrow> state \<Rightarrow> state" where
  "emit e s = s\<lparr>trace := trace s @ [e]\<rparr>"

definition alloc :: "state \<Rightarrow> ref \<times> state" where
  "alloc s = (next_ref s, s\<lparr>next_ref := Suc (next_ref s)\<rparr>)"

section \<open>The components the Application calls\<close>

text \<open>
  Modelled from the spec: the constructor of the Properties loader (\<open>core/Properties\<close>).
  It is given a file path and a logger and tries to read and parse the file as JSON, a flat
  object from string keys to string values; on a read or parse failure it logs a warning
  via the logger and leaves the property set empty.
\<close>

definition new_Properties :: "string \<Rightarrow> logger \<Rightarrow> state \<Rightarrow> Properties \<times> state" where
  "new_Properties propertiesPath lg s =
     (let s1 = emit (New_Properties propertiesPath lg) s
      in case files s1 propertiesPath of
           None \<Rightarrow> (Map.empty, emit (Warn lg (PropertiesWarning propertiesPath)) s1)
         | Some Unparsable \<Rightarrow> (Map.empty, emit (Warn lg (PropertiesWarning propertiesPath)) s1)
         | Some (JsonObject kv) \<Rightarrow> (kv, s1))"

text \<open>
  Modelled from the spec: \<open>Properties.get(key)\<close>, the value of the key or \<open>undefined\<close>
  (\<open>None\<close>) for a missing key.
\<close>

definition Properties_get :: "Properties \<Rightarrow> string \<Rightarrow> string option" where
  "Properties_get props key = props key"

text \<open>
  Modelled from the spec: the controller metadata reader (\<open>Utils.getControllerMetadata\<close>).
  It returns the base path and the ordered route bindings recorded on the prototype and has
  no effect besides; the call is noted in the trace.
\<close>

definition getControllerMetadata :: "prototype_obj \<Rightarrow> state \<Rightarrow> RestControllerConfig \<times> state" where
  "getControllerMetadata proto s = (annotations proto, emit (Get_metadata proto) s)"

text \<open>\<open>new controllerClass()\<close>: the instance is a new object.\<close>

definition new_controller :: "Newable \<Rightarrow> state \<Rightarrow> ref \<times> state" where
  "new_controller controllerClass s =
     (case alloc s of (r, s1) \<Rightarrow> (r, emit (New_controller controllerClass r) s1))"

text \<open>
  Modelled from the spec: what the router adapter (\<open>core/AppRouter\<close>) registers for one
  route binding, a handler at \<open>basePath + path\<close> for the HTTP method that calls the named
  method of the controller instance.
\<close>

definition layer_of :: "ref \<Rightarrow> string \<Rightarrow> RouteBinding \<Rightarrow> Layer" where
  "layer_of controllerInstance bp b =
     \<lparr>methods = [httpMethod b], layer_path = bp @ path b,
      handler = (controllerInstance, handlerName b)\<rparr>"

text \<open>
  Modelled from the spec: \<open>AppRouter.configureEndpoints(routes, controllerInstance, basePath)\<close>
  registers the route bindings in their order, after those already in the stack. The router
  is the one owned by the Application \<open>this\<close>.
\<close>

definition configureEndpoints ::
  "RouteBinding list \<Rightarrow> ref \<Rightarrow> string \<Rightarrow> ref \<Rightarrow> state \<Rightarrow> state" where
  "configureEndpoints rs controllerInstance bp this s =
     (let a = applications s this;
          r = router a;
          r' = r\<lparr>stack := stack r @ map (layer_of controllerInstance bp) rs\<rparr>
      in emit (Configure_endpoints rs controllerInstance bp)
           (s\<lparr>applications := (applications s)(this := a\<lparr>router := r'\<rparr>)\<rparr>))"

text \<open>
  Modelled from the spec: \<open>set(key, instance)\<close> of the instance cache
  (\<open>data/ApplicationCache\<close>), a simple mapping in which the last write to a key wins. The
  key is the value the caller passes, which is \<open>undefined\<close> (\<open>None\<close>) when the caller read
  it from a property that does not exist.
\<close>

definition ApplicationCache_set :: "string option \<Rightarrow> ref \<Rightarrow> state \<Rightarrow> state" where
  "ApplicationCache_set key inst s = emit (Cache_set key inst) (s\<lparr>cache := (cache s)(key \<mapsto> inst)\<rparr>)"


text \<open>
  The HTTP library. \<open>use\<close> appends a middleware to the app of the Application \<open>this\<close>.
  \<open>listen\<close> is handed the port: it either throws or returns a new Server listening on it.
  \<open>Server.close\<close> stops the server from listening and returns the server.
\<close>

definition Koa_use :: "middleware \<Rightarrow> ref \<Rightarrow> state \<Rightarrow> state" where
  "Koa_use mw this s =
     (let a = applications s this;
          k = app a
      in emit (Use mw)
           (s\<lparr>applications := (applications s)(this := a\<lparr>app := k\<lparr>middleware := middleware k @ [mw]\<rparr>\<rparr>)\<rparr>))"

definition Koa_listen :: "js_number \<Rightarrow> state \<Rightarrow> (error + ref) \<times> state" where
  "Koa_listen p s =
     (let s1 = emit (Listen p) s
      in if listen_throws s1 p then (Inl (ListenError p), s1)
         else (case alloc s1 of (srv, s2) \<Rightarrow>
                 (Inr srv, s2\<lparr>servers := (servers s2)(srv := \<lparr>bound_port = p, listening = True\<rparr>)\<rparr>)))"


definition Logger_info :: "logger \<Rightarrow> message \<Rightarrow> state \<Rightarrow> state" where
  "Logger_info lg m s = emit (Info lg m) s"

section \<open>Application\<close>

text \<open>The constructor, with the defaults of its destructured configuration.\<close>

definition new_Application :: "ApplicationConfig \<Rightarrow> state \<Rightarrow> ref \<times> state" where
  "new_Application cfg s =
     (let propertiesPath = (case cfg_propertiesPath cfg of None \<Rightarrow> ''/haru.config.json'' | Some p \<Rightarrow> p);
          cs = (case cfg_controllers cfg of None \<Rightarrow> [] | Some l \<Rightarrow> l);
          lg = (case cfg_logger cfg of None \<Rightarrow> Console | Some l \<Rightarrow> l)
      in case alloc s of (this, s1) \<Rightarrow>
         (case new_Properties propertiesPath lg s1 of (props, s2) \<Rightarrow>
            (this, s2\<lparr>applications := (applications s2)(this :=
                      \<lparr>app = \<lparr>middleware = []\<rparr>, router = \<lparr>stack = []\<rparr>, controllers = cs,
                       properties = props, logger = lg, server = None\<rparr>)\<rparr>)))"

text \<open>The body of the \<open>forEach\<close> in \<open>initialize\<close>, for one controller class.\<close>

definition initialize_body :: "ref \<Rightarrow> state \<Rightarrow> Newable \<Rightarrow> state" where
  "initialize_body this s controllerClass =
     (case getControllerMetadata (prototype controllerClass) s of (meta, s1) \<Rightarrow>
      (case new_controller controllerClass s1 of (controllerInstance, s2) \<Rightarrow>
         ApplicationCache_set (name (prototype controllerClass)) controllerInstance
           (configureEndpoints (routes meta) controllerInstance (basePath meta) this s2)))"

definition initialize :: "ref \<Rightarrow> state \<Rightarrow> ref \<times> state" where
  "initialize this s = (this, foldl (initialize_body this) s (controllers (applications s this)))"

definition getPortFromProperties :: "ref \<Rightarrow> state \<Rightarrow> js_number option" where
  "getPortFromProperties this s =
     (case Properties_get (properties (applications s this)) ''port'' of
        None \<Rightarrow> None
      | Some p \<Rightarrow> if p \<noteq> [] then Some (parseInt10 p) else None)"

text \<open>
  \<open>Array.prototype.join\<close>, and the route listing: the stack of the router is an array and so
  is truthy, which leaves the first branch of the conditional.
\<close>

definition join :: "string \<Rightarrow> string list \<Rightarrow> string" where
  "join sep xs = (case xs of [] \<Rightarrow> [] | x # r \<Rightarrow> foldl (\<lambda>acc y. acc @ sep @ y) x r)"

definition getAvailableRoutes :: "ref \<Rightarrow> state \<Rightarrow> string" where
  "getAvailableRoutes this s =
     join [CHR 0x0A]
       (map (\<lambda>route. ''['' @ join '','' (methods route) @ ''] '' @ [CHR 0x09, CHR 0x09] @ '' =>  ''
                       @ layer_path route)
            (stack (router (applications s this))))"

text \<open>
  \<open>start\<close> has no \<open>await\<close>: its body runs when it is called, and an exception of \<open>listen\<close>
  rejects the promise (\<open>Inl\<close>) before \<open>this.server\<close> is assigned. An omitted argument
  (\<open>None\<close>) takes the default 8080 of the parameter, and \<open>usedPort\<close> is
  \<open>this.getPortFromProperties() ?? port\<close>.
\<close>

definition port_default :: "js_number option \<Rightarrow> js_number" where
  "port_default port_arg = (case port_arg of None \<Rightarrow> Num 8080 | Some p \<Rightarrow> p)"

definition usedPort :: "js_number \<Rightarrow> ref \<Rightarrow> state \<Rightarrow> js_number" where
  "usedPort port this s = (case getPortFromProperties this s of None \<Rightarrow> port | Some p \<Rightarrow> p)"

definition start :: "js_number option \<Rightarrow> ref \<Rightarrow> state \<Rightarrow> (error + unit) \<times> state" where
  "start port_arg this s =
     (let port = port_default port_arg;
          s1 = Koa_use (Routes this) this s;
          s2 = Koa_use (AllowedMethods this) this s1;
          p = usedPort port this s2
      in case Koa_listen p s2 of
           (Inl e, s3) \<Rightarrow> (Inl e, s3)
         | (Inr srv, s3) \<Rightarrow>
             (let s4 = s3\<lparr>applications := (applications s3)(this := (applications s3 this)\<lparr>server := Some srv\<rparr>)\<rparr>
              in (Inr (), Logger_info (logger (applications s4 this))
                            (Started p (getAvailableRoutes this s4)) s4)))"


section \<open>The example application\<close>

text \<open>
  The entry point of the example constructs an Application from a properties path and the
  two controller classes \<open>UserController\<close> and \<open>HelloWorldController\<close>, and runs
  \<open>app.initialize().start()\<close>. The classes carry sample annotations here; the process
  starts with no object, an empty cache and the given files, and \<open>listen\<close> throws for a
  port that is not an integer from 0 to 65535.
\<close>

definition UserController :: Newable where
  "UserController =
     \<lparr>className = ''UserController'',
      prototype = \<lparr>name = Some ''UserController'',
                   annotations = \<lparr>basePath = ''/users'',
                                   routes = [\<lparr>httpMethod = ''get'', path = ''/'', handlerName = ''list''\<rparr>,
                                             \<lparr>httpMethod = ''post'', path = ''/'', handlerName = ''create''\<rparr>]\<rparr>\<rparr>\<rparr>"

definition HelloWorldController :: Newable where
  "HelloWorldController =
     \<lparr>className = ''HelloWorldController'',
      prototype = \<lparr>name = Some ''HelloWorldController'',
                   annotations = \<lparr>basePath = ''/hello'',
                                   routes = [\<lparr>httpMethod = ''get'', path = ''/world'', handlerName = ''sayHello''\<rparr>]\<rparr>\<rparr>\<rparr>"



definition example_config :: ApplicationConfig where
  "example_config =
     \<lparr>cfg_propertiesPath = Some ''./app.config.json'',
      cfg_controllers = Some [UserController, HelloWorldController],
      cfg_logger = None\<rparr>"

definition port_in_range :: "js_number \<Rightarrow> bool" where
  "port_in_range p = (case p of NaN \<Rightarrow> False | Num n \<Rightarrow> 0 \<le> n \<and> n \<le> 65535)"

definition process :: "(string \<rightharpoonup> config_file) \<Rightarrow> state" where
  "process fs =
     \<lparr>applications = (\<lambda>_. \<lparr>app = \<lparr>middleware = []\<rparr>, router = \<lparr>stack = []\<rparr>, controllers = [],
                              properties = Map.empty, logger = Console, server = None\<rparr>),
      servers = (\<lambda>_. \<lparr>bound_port = NaN, listening = False\<rparr>),
      cache = Map.empty,
      files = fs,
      listen_throws = (\<lambda>p. \<not> port_in_range p),
      next_ref = 0,
      trace = []\<rparr>"

definition config_json :: "string \<Rightarrow> string \<rightharpoonup> config_file" where
  "config_json p = [''./app.config.json'' \<mapsto> JsonObject [''port'' \<mapsto> p]]"

text \<open>The example up to \<open>initialize()\<close>, for a properties file whose \<open>port\<close> entry is given.\<close>

definition example_app :: "string \<Rightarrow> ref \<times> state" where
  "example_app p =
     (case new_Application example_config (process (config_json p)) of (this, s) \<Rightarrow> initialize this s)"

section \<open>What each operation does to the state\<close>

lemma emit_simps:
  "trace (emit e s) = trace s @ [e]"
  "next_ref (emit e s) = next_ref s"
  "cache (emit e s) = cache s"
  "applications (emit e s) = applications s"
  "servers (emit e s) = servers s"
  "files (emit e s) = files s"
  "listen_throws (emit e s) = listen_throws s"
  by (simp_all add: emit_def)

lemmas body_defs = initialize_body_def getControllerMetadata_def new_controller_def alloc_def
  ApplicationCache_set_def configureEndpoints_def emit_simps Let_def

lemma initialize_body_trace:
  "trace (initialize_body this s c) = trace s @
     [Get_metadata (prototype c), New_controller c (next_ref s),
      Configure_endpoints (routes (annotations (prototype c))) (next_ref s)
        (basePath (annotations (prototype c))),
      Cache_set (name (prototype c)) (next_ref s)]"
  by (simp add: body_defs)

lemma initialize_body_next_ref:
  "next_ref (initialize_body this s c) = Suc (next_ref s)"
  by (simp add: body_defs)

lemma initialize_body_cache:
  "cache (initialize_body this s c) = (cache s)(name (prototype c) \<mapsto> next_ref s)"
  by (simp add: body_defs)

lemma initialize_body_applications:
  "applications (initialize_body this s c) =
     (applications s)(this := (applications s this)\<lparr>router :=
        (router (applications s this))\<lparr>stack := stack (router (applications s this)) @
           map (layer_of (next_ref s) (basePath (annotations (prototype c))))
               (routes (annotations (prototype c)))\<rparr>\<rparr>)"
  by (simp add: body_defs)

lemma initialize_body_frame:
  "servers (initialize_body this s c) = servers s"
  "files (initialize_body this s c) = files s"
  "listen_throws (initialize_body this s c) = listen_throws s"
  by (simp_all add: body_defs)

lemma upt_shift: "[n ..< n + length (c # cs)] = n # [Suc n ..< Suc n + length cs]"
proof -
  have "[n ..< n + length (c # cs)] = n # [Suc n ..< n + length (c # cs)]"
    by (rule upt_conv_Cons) simp
  then show ?thesis by simp
qed

lemma foldl_next_ref:
  "next_ref (foldl (initialize_body this) s cs) = next_ref s + length cs"
  by (induction cs arbitrary: s) (simp_all add: initialize_body_next_ref)

lemma foldl_frame:
  "servers (foldl (initialize_body this) s cs) = servers s"
  "files (foldl (initialize_body this) s cs) = files s"
  "listen_throws (foldl (initialize_body this) s cs) = listen_throws s"
  by (induction cs arbitrary: s) (simp_all add: initialize_body_frame)

lemma foldl_trace:
  "trace (foldl (initialize_body this) s cs) = trace s @
     concat (map (\<lambda>(c, r).
       [Get_metadata (prototype c), New_controller c r,
        Configure_endpoints (routes (annotations (prototype c))) r
          (basePath (annotations (prototype c))),
        Cache_set (name (prototype c)) r]) (zip cs [next_ref s ..< next_ref s + length cs]))"
proof (induction cs arbitrary: s)
  case Nil
  then show ?case by simp
next
  case (Cons c cs)
  show ?case
    by (simp only: foldl_Cons Cons.IH initialize_body_trace initialize_body_next_ref upt_shift)
       simp
qed

lemma foldl_applications:
  "applications (foldl (initialize_body this) s cs) =
     (applications s)(this := (applications s this)\<lparr>router :=
        (router (applications s this))\<lparr>stack := stack (router (applications s this)) @
           concat (map (\<lambda>(c, r). map (layer_of r (basePath (annotations (prototype c))))
                                      (routes (annotations (prototype c))))
                       (zip cs [next_ref s ..< next_ref s + length cs]))\<rparr>\<rparr>)"
proof (induction cs arbitrary: s)
  case Nil
  then show ?case by simp
next
  case (Cons c cs)
  show ?case
    by (simp only: foldl_Cons Cons.IH initialize_body_applications initialize_body_next_ref
        upt_shift) (simp del: upt_Suc add: fun_eq_iff)
qed

lemma Koa_use_simps:
  "trace (Koa_use mw this s) = trace s @ [Use mw]"
  "next_ref (Koa_use mw this s) = next_ref s"
  "cache (Koa_use mw this s) = cache s"
  "servers (Koa_use mw this s) = servers s"
  "files (Koa_use mw this s) = files s"
  "listen_throws (Koa_use mw this s) = listen_throws s"
  "applications (Koa_use mw this s) =
     (applications s)(this := (applications s this)\<lparr>app :=
        (app (applications s this))\<lparr>middleware := middleware (app (applications s this)) @ [mw]\<rparr>\<rparr>)"
  by (simp_all add: Koa_use_def emit_simps Let_def)

lemma usedPort_Koa_use:
  "usedPort port this (Koa_use mw that s) = usedPort port this s"
  by (simp add: usedPort_def getPortFromProperties_def Koa_use_simps)

lemmas start_defs = start_def Koa_listen_def alloc_def Let_def usedPort_Koa_use Koa_use_simps
  emit_simps Logger_info_def

lemma start_result:
  "fst (start port_arg this s) =
     (if listen_throws s (usedPort (port_default port_arg) this s)
      then Inl (ListenError (usedPort (port_default port_arg) this s))
      else Inr ())"
  by (simp add: start_defs)

lemma start_trace:
  "trace (snd (start port_arg this s)) =
     trace s @ [Use (Routes this), Use (AllowedMethods this),
                Listen (usedPort (port_default port_arg) this s)] @
     (if listen_throws s (usedPort (port_default port_arg) this s) then []
      else [Info (logger (applications s this))
              (Started (usedPort (port_default port_arg) this s) (getAvailableRoutes this s))])"
  by (simp add: start_defs getAvailableRoutes_def)

lemma start_middleware:
  "middleware (app (applications (snd (start port_arg this s)) this)) =
     middleware (app (applications s this)) @ [Routes this, AllowedMethods this]"
  by (simp add: start_defs)

lemma start_server:
  "\<not> listen_throws s (usedPort (port_default port_arg) this s) \<Longrightarrow>
   server (applications (snd (start port_arg this s)) this) = Some (next_ref s) \<and>
   servers (snd (start port_arg this s)) (next_ref s) =
     \<lparr>bound_port = usedPort (port_default port_arg) this s, listening = True\<rparr> \<and>
   next_ref (snd (start port_arg this s)) = Suc (next_ref s)"
  by (simp add: start_defs)

lemma start_server_throws:
  "listen_throws s (usedPort (port_default port_arg) this s) \<Longrightarrow>
   server (applications (snd (start port_arg this s)) this) = server (applications s this) \<and>
   servers (snd (start port_arg this s)) = servers s"
  by (simp add: start_defs)

lemma initialize_trace:
  "trace (snd (initialize this s)) = trace s @
     concat (map (\<lambda>(c, r).
       [Get_metadata (prototype c), New_controller c r,
        Configure_endpoints (routes (annotations (prototype c))) r
          (basePath (annotations (prototype c))),
        Cache_set (name (prototype c)) r])
       (zip (controllers (applications s this))
            [next_ref s ..< next_ref s + length (controllers (applications s this))]))"
  by (simp only: initialize_def snd_conv foldl_trace)

lemma initialize_controllers:
  "controllers (applications (snd (initialize this s)) that) = controllers (applications s that)"
  by (simp add: initialize_def foldl_applications)


lemma initialize_next_ref:
  "next_ref (snd (initialize this s)) = next_ref s + length (controllers (applications s this))"
  by (simp add: initialize_def foldl_next_ref)

lemma initialize_stack:
  "stack (router (applications (snd (initialize this s)) this)) =
     stack (router (applications s this)) @
     concat (map (\<lambda>(c, r). map (layer_of r (basePath (annotations (prototype c))))
                                (routes (annotations (prototype c))))
                 (zip (controllers (applications s this))
                      [next_ref s ..< next_ref s + length (controllers (applications s this))]))"
  by (simp add: initialize_def foldl_applications)







lemma layers_registered:
  "length rs = length cs \<Longrightarrow>
   map (\<lambda>l. (methods l, layer_path l))
     (concat (map (\<lambda>(c, r). map (layer_of r (basePath (annotations (prototype c))))
                                (routes (annotations (prototype c)))) (zip cs rs))) =
   concat (map (\<lambda>c. map (\<lambda>b. ([httpMethod b], basePath (annotations (prototype c)) @ path b))
                         (routes (annotations (prototype c)))) cs)"
proof (induction cs arbitrary: rs)
  case Nil
  then show ?case by simp
next
  case (Cons c cs)
  then obtain r rs' where rs: "rs = r # rs'" and len: "length rs' = length cs"
    by (cases rs) auto
  show ?case
    using Cons.IH [OF len] by (simp add: rs layer_of_def)
qed



lemma new_Properties_trace_hd:
  "hd (drop (length (trace s)) (trace (snd (new_Properties propertiesPath lg s)))) =
     New_Properties propertiesPath lg"
  by (simp add: new_Properties_def emit_simps Let_def split: option.splits config_file.splits)

lemma new_Properties_props:
  "fst (new_Properties propertiesPath lg s) =
     (case files s propertiesPath of Some (JsonObject kv) \<Rightarrow> kv | _ \<Rightarrow> Map.empty)"
  by (simp add: new_Properties_def emit_simps Let_def split: option.splits config_file.splits)


lemma foldl_cache:
  "cache (foldl (initialize_body this) s cs) =
     cache s ++ map_of (rev (zip (map (\<lambda>c. name (prototype c)) cs)
                                 [next_ref s ..< next_ref s + length cs]))"
proof (induction cs arbitrary: s)
  case Nil
  then show ?case by simp
next
  case (Cons c cs)
  let ?k = "name (prototype c)" and ?n = "next_ref s"
  let ?Z = "zip (map (\<lambda>c. name (prototype c)) cs) [Suc ?n ..< Suc ?n + length cs]"
  have "cache (foldl (initialize_body this) s (c # cs)) = (cache s)(?k \<mapsto> ?n) ++ map_of (rev ?Z)"
    by (simp only: foldl_Cons Cons.IH initialize_body_cache initialize_body_next_ref)
  also have "(cache s)(?k \<mapsto> ?n) = cache s ++ [?k \<mapsto> ?n]"
    by simp
  also have "(cache s ++ [?k \<mapsto> ?n]) ++ map_of (rev ?Z) = cache s ++ ([?k \<mapsto> ?n] ++ map_of (rev ?Z))"
    by (simp only: map_add_assoc)
  also have "[?k \<mapsto> ?n] ++ map_of (rev ?Z) = map_of (rev ((?k, ?n) # ?Z))"
    by (simp only: rev.simps map_of_append) simp
  also have "(?k, ?n) # ?Z =
      zip (map (\<lambda>c. name (prototype c)) (c # cs)) [?n ..< ?n + length (c # cs)]"
    by (simp only: upt_shift list.map zip_Cons_Cons)
  finally show ?case .
qed

lemma zip_map_keys:
  "zip (map f cs) rs = map (\<lambda>(c, r). (f c, r)) (zip cs rs)"
  by (induction cs arbitrary: rs) (auto simp: zip_Cons1 split: list.splits)

lemma layers_inline:
  "map (layer_of r bp) rs =
     map (\<lambda>b. \<lparr>methods = [httpMethod b], layer_path = bp @ path b, handler = (r, handlerName b)\<rparr>) rs"
  by (simp add: layer_of_def)





subsection \<open>The example, evaluated\<close>

lemmas parse_defs = parseInt10_def isWhiteSpace_def isDigit_def mathInt_def digitValue_def

lemmas example_defs = new_Application_def example_config_def process_def config_json_def
  new_Properties_def alloc_def emit_def Let_def UserController_def HelloWorldController_def

lemmas init_defs = example_app_def example_defs initialize_def initialize_body_def
  getControllerMetadata_def new_controller_def ApplicationCache_set_def configureEndpoints_def
  layer_of_def

lemma example_new_fields:
  "fst (new_Application example_config (process fs)) = 0"
  "controllers (applications (snd (new_Application example_config (process fs))) 0) =
     [UserController, HelloWorldController]"
  "next_ref (snd (new_Application example_config (process fs))) = 1"
  "cache (snd (new_Application example_config (process fs))) = Map.empty"
  "stack (router (applications (snd (new_Application example_config (process fs))) 0)) = []"
  by (simp_all add: example_defs split: option.splits config_file.splits)

lemma example_missing_file_fields:
  "properties (applications (snd (new_Application example_config (process Map.empty))) 0) = Map.empty"
  "listen_throws (snd (new_Application example_config (process Map.empty))) = (\<lambda>q. \<not> port_in_range q)"
  by (simp_all add: example_defs)

lemma example_app_fields:
  "fst (example_app p) = 0"
  "properties (applications (snd (example_app p)) 0) = [''port'' \<mapsto> p]"
  "logger (applications (snd (example_app p)) 0) = Console"
  "server (applications (snd (example_app p)) 0) = None"
  "controllers (applications (snd (example_app p)) 0) = [UserController, HelloWorldController]"
  "next_ref (snd (example_app p)) = 3"
  "listen_throws (snd (example_app p)) = (\<lambda>q. \<not> port_in_range q)"
  by (simp_all add: init_defs)

lemma example_app_initialize:
  "example_app p = initialize 0 (snd (new_Application example_config (process (config_json p))))"
proof -
  obtain this s where ns: "new_Application example_config (process (config_json p)) = (this, s)"
    by (cases "new_Application example_config (process (config_json p))")
  with example_new_fields(1) [of "config_json p"] have "this = 0"
    by simp
  with ns show ?thesis
    by (simp add: example_app_def)
qed

lemmas port_defs = usedPort_def port_default_def getPortFromProperties_def Properties_get_def
  port_in_range_def parse_defs example_app_fields Let_def

section \<open>The claims\<close>




text \<open>
  C2, as amended. For every call \<open>start(port)\<close> the port handed to \<open>listen\<close> is
  \<open>properties.get('port')\<close> parsed as an integer when that property is present and is not the
  empty string, and otherwise the port argument, whose default is 8080. It is the only port
  listened on in the call, and when \<open>start\<close> returns, \<open>this.server\<close> is a new server
  listening on it. In particular with no \<open>port\<close> property and no argument the port is 8080,
  and with the property \<open>"9191"\<close> it is 9191 whatever the argument.
\<close>

theorem start_effective_port:
  "let arg = (case port_arg of None \<Rightarrow> Num 8080 | Some a \<Rightarrow> a);
       P = (case Properties_get (properties (applications s this)) ''port'' of
              None \<Rightarrow> arg
            | Some p \<Rightarrow> if p = [] then arg else parseInt10 p);
       s' = snd (start port_arg this s);
       calls = drop (length (trace s)) (trace s')
   in Listen P \<in> set calls \<and> (\<forall>q. Listen q \<in> set calls \<longrightarrow> q = P) \<and>
      (fst (start port_arg this s) = Inr () \<longrightarrow>
         server (applications s' this) = Some (next_ref s) \<and>
         servers s' (next_ref s) = \<lparr>bound_port = P, listening = True\<rparr>) \<and>
      (Properties_get (properties (applications s this)) ''port'' = None \<and> port_arg = None \<longrightarrow>
         P = Num 8080) \<and>
      (Properties_get (properties (applications s this)) ''port'' = Some ''9191'' \<longrightarrow>
         P = Num 9191)"
proof -
  let ?arg = "case port_arg of None \<Rightarrow> Num 8080 | Some a \<Rightarrow> a"
  let ?P = "case Properties_get (properties (applications s this)) ''port'' of
              None \<Rightarrow> ?arg
            | Some p \<Rightarrow> if p = [] then ?arg else parseInt10 p"
  have P: "usedPort (port_default port_arg) this s = ?P"
    by (simp add: usedPort_def port_default_def getPortFromProperties_def split: option.splits)
  have calls: "drop (length (trace s)) (trace (snd (start port_arg this s))) =
      [Use (Routes this), Use (AllowedMethods this), Listen ?P] @
      (if listen_throws s ?P then []
       else [Info (logger (applications s this)) (Started ?P (getAvailableRoutes this s))])"
    by (simp add: start_trace P)
  have srv: "fst (start port_arg this s) = Inr () \<longrightarrow>
      server (applications (snd (start port_arg this s)) this) = Some (next_ref s) \<and>
      servers (snd (start port_arg this s)) (next_ref s) = \<lparr>bound_port = ?P, listening = True\<rparr>"
    using start_server [of s port_arg this] by (simp add: start_result P split: if_splits)
  have p9191: "parseInt10 ''9191'' = Num 9191"
    by (simp add: parse_defs)
  show ?thesis
    unfolding Let_def
    apply (intro conjI)
    subgoal by (simp add: calls)
    subgoal by (simp add: calls)
    subgoal using srv by simp
    subgoal by simp
    subgoal by (simp add: p9191)
    done
qed

theorem start_effective_port_witness:
  "Listen (Num 9191) \<in> set (drop (length (trace (snd (example_app ''9191''))))
      (trace (snd (start (Some (Num 3000)) 0 (snd (example_app ''9191'')))))) \<and>
   fst (start (Some (Num 3000)) 0 (snd (example_app ''9191''))) = Inr () \<and>
   server (applications (snd (start (Some (Num 3000)) 0 (snd (example_app ''9191'')))) 0) = Some 3 \<and>
   servers (snd (start (Some (Num 3000)) 0 (snd (example_app ''9191'')))) 3 =
     \<lparr>bound_port = Num 9191, listening = True\<rparr> \<and>
   Properties_get (properties (applications
      (snd (new_Application example_config (process Map.empty))) 0)) ''port'' = None \<and>
   Listen (Num 8080) \<in> set (drop (length (trace (snd (new_Application example_config (process Map.empty)))))
      (trace (snd (start None 0 (snd (new_Application example_config (process Map.empty))))))) \<and>
   servers (snd (start None 0 (snd (new_Application example_config (process Map.empty))))) 1 =
     \<lparr>bound_port = Num 8080, listening = True\<rparr>"
  using start_effective_port [of "Some (Num 3000)" "snd (example_app ''9191'')" 0]
    start_effective_port [of None "snd (new_Application example_config (process Map.empty))" 0]
  by (simp add: start_result port_defs example_missing_file_fields example_new_fields)

text \<open>
  C2 as stated fails for a \<open>port\<close> property that is present and empty: \<open>get('port')\<close>
  returns the empty string, which parses to \<open>NaN\<close>, and \<open>start(3000)\<close> listens on the
  argument 3000.
\<close>

theorem start_effective_port_counterexample:
  "Properties_get (properties (applications (snd (example_app '''')) 0)) ''port'' = Some '''' \<and>
   parseInt10 '''' = NaN \<and>
   drop (length (trace (snd (example_app ''''))))
        (trace (snd (start (Some (Num 3000)) 0 (snd (example_app ''''))))) =
     [Use (Routes 0), Use (AllowedMethods 0), Listen (Num 3000),
      Info Console (Started (Num 3000) (getAvailableRoutes 0 (snd (example_app ''''))))]"
  by (simp add: start_trace port_defs)



text \<open>
  C4: \<open>initialize()\<close> goes through the configured controller classes in list order, and for
  each class it reads the metadata from the prototype, instantiates the controller,
  registers the routes with the router under the base path, and then records the instance
  in the instance cache, in this order. The state after \<open>initialize()\<close> is the state before
  it with four changes: the calls are these four per class, class after class; the
  instances are the next unused references, one per class; the stack of the router of this
  Application has gained, class after class, one handler per route at base path and path,
  bound to the instance of the class; and the cache has gained each instance under the key
  of its class, a later class overwriting an earlier one with the same key. Nothing else
  changes, the routers of other Applications included.
\<close>

theorem initialize_order:
  "snd (initialize this s) =
     (let cs = controllers (applications s this);
          made = zip cs [next_ref s ..< next_ref s + length cs]
      in s\<lparr>applications := (applications s)(this := (applications s this)\<lparr>router :=
              (router (applications s this))\<lparr>stack := stack (router (applications s this)) @
                 concat (map (\<lambda>(controllerClass, controllerInstance).
                    map (\<lambda>b. \<lparr>methods = [httpMethod b],
                               layer_path = basePath (annotations (prototype controllerClass)) @ path b,
                               handler = (controllerInstance, handlerName b)\<rparr>)
                        (routes (annotations (prototype controllerClass)))) made)\<rparr>\<rparr>),
            cache := cache s ++ map_of (rev (map (\<lambda>(controllerClass, controllerInstance).
                        (name (prototype controllerClass), controllerInstance)) made)),
            next_ref := next_ref s + length cs,
            trace := trace s @
              concat (map (\<lambda>(controllerClass, controllerInstance).
                [Get_metadata (prototype controllerClass),
                 New_controller controllerClass controllerInstance,
                 Configure_endpoints (routes (annotations (prototype controllerClass))) controllerInstance
                   (basePath (annotations (prototype controllerClass))),
                 Cache_set (name (prototype controllerClass)) controllerInstance]) made)\<rparr>)"
  unfolding Let_def
  by (rule state.equality)
     (simp_all add: initialize_def foldl_applications foldl_cache foldl_next_ref foldl_trace
       foldl_frame zip_map_keys layers_inline del: upt_Suc)

theorem initialize_order_witness:
  "trace (snd (initialize 0 (snd (new_Application example_config (process Map.empty))))) =
     [New_Properties ''./app.config.json'' Console,
      Warn Console (PropertiesWarning ''./app.config.json''),
      Get_metadata (prototype UserController),
      New_controller UserController 1,
      Configure_endpoints (routes (annotations (prototype UserController))) 1 ''/users'',
      Cache_set (Some ''UserController'') 1,
      Get_metadata (prototype HelloWorldController),
      New_controller HelloWorldController 2,
      Configure_endpoints (routes (annotations (prototype HelloWorldController))) 2 ''/hello'',
      Cache_set (Some ''HelloWorldController'') 2] \<and>
   stack (router (applications
      (snd (initialize 0 (snd (new_Application example_config (process Map.empty))))) 0)) =
     [\<lparr>methods = [''get''], layer_path = ''/users/'', handler = (1, ''list'')\<rparr>,
      \<lparr>methods = [''post''], layer_path = ''/users/'', handler = (1, ''create'')\<rparr>,
      \<lparr>methods = [''get''], layer_path = ''/hello/world'', handler = (2, ''sayHello'')\<rparr>] \<and>
   cache (snd (initialize 0 (snd (new_Application example_config (process Map.empty)))))
     (Some ''UserController'') = Some 1 \<and>
   cache (snd (initialize 0 (snd (new_Application example_config (process Map.empty)))))
     (Some ''HelloWorldController'') = Some 2 \<and>
   next_ref (snd (initialize 0 (snd (new_Application example_config (process Map.empty))))) = 3"
  using initialize_order [of 0 "snd (new_Application example_config (process Map.empty))"]
  by (simp add: example_defs upt_conv_Cons)

text \<open>
  C5: \<open>initialize()\<close> returns the Application object it was called on, so that
  \<open>initialize().start()\<close> is \<open>start()\<close> on that same object.
\<close>

theorem initialize_returns_this:
  "fst (initialize this s) = this \<and>
   start port_arg (fst (initialize this s)) (snd (initialize this s)) =
     start port_arg this (snd (initialize this s))"
  by (simp add: initialize_def)

theorem initialize_returns_this_witness:
  "fst (initialize 0 (snd (new_Application example_config (process Map.empty)))) =
     fst (new_Application example_config (process Map.empty))"
  using initialize_returns_this [of 0 "snd (new_Application example_config (process Map.empty))"]
  by (simp add: example_new_fields)

text \<open>
  C6: \<open>initialize()\<close> is not idempotent. A second call on the same Application registers
  the routes of every configured controller with the router a second time, so that the
  router stack lists each registered method and path twice, and it instantiates every
  controller again, with new instances. With at least one controller the state after the
  second call differs from the state after the first.
\<close>

theorem initialize_twice:
  "let cs = controllers (applications s this);
       s1 = snd (initialize this s);
       s2 = snd (initialize this s1);
       registered = concat (map (\<lambda>c. map (\<lambda>b. ([httpMethod b], basePath (annotations (prototype c)) @ path b))
                                         (routes (annotations (prototype c)))) cs)
   in map (\<lambda>l. (methods l, layer_path l)) (stack (router (applications s1 this))) =
        map (\<lambda>l. (methods l, layer_path l)) (stack (router (applications s this))) @ registered \<and>
      map (\<lambda>l. (methods l, layer_path l)) (stack (router (applications s2 this))) =
        map (\<lambda>l. (methods l, layer_path l)) (stack (router (applications s this))) @
        registered @ registered \<and>
      [e \<leftarrow> drop (length (trace s)) (trace s1). \<exists>c r. e = New_controller c r] =
        map (\<lambda>(c, r). New_controller c r) (zip cs [next_ref s ..< next_ref s + length cs]) \<and>
      [e \<leftarrow> drop (length (trace s1)) (trace s2). \<exists>c r. e = New_controller c r] =
        map (\<lambda>(c, r). New_controller c r)
            (zip cs [next_ref s + length cs ..< next_ref s + length cs + length cs]) \<and>
      (cs \<noteq> [] \<longrightarrow> s2 \<noteq> s1)"
proof -
  let ?cs = "controllers (applications s this)"
  let ?s1 = "snd (initialize this s)"
  let ?s2 = "snd (initialize this ?s1)"
  let ?ev = "\<lambda>(c, r).
       [Get_metadata (prototype c), New_controller c r,
        Configure_endpoints (routes (annotations (prototype c))) r
          (basePath (annotations (prototype c))),
        Cache_set (name (prototype c)) r]"
  have cs1: "controllers (applications ?s1 this) = ?cs"
    by (rule initialize_controllers)
  have n1: "next_ref ?s1 = next_ref s + length ?cs"
    by (rule initialize_next_ref)
  have n2: "next_ref ?s2 = next_ref s + length ?cs + length ?cs"
    by (simp add: initialize_next_ref cs1)
  have news: "[e \<leftarrow> concat (map ?ev zs). \<exists>c r. e = New_controller c r] =
      map (\<lambda>(c, r). New_controller c r) zs" for zs
    by (induction zs) auto
  have t1: "drop (length (trace s)) (trace ?s1) =
      concat (map ?ev (zip ?cs [next_ref s ..< next_ref s + length ?cs]))"
    by (simp add: initialize_trace)
  have t2: "drop (length (trace ?s1)) (trace ?s2) =
      concat (map ?ev (zip ?cs [next_ref s + length ?cs ..< next_ref s + length ?cs + length ?cs]))"
    using initialize_trace [of this ?s1] by (simp only: cs1 n1) simp
  have st1: "map (\<lambda>l. (methods l, layer_path l)) (stack (router (applications ?s1 this))) =
      map (\<lambda>l. (methods l, layer_path l)) (stack (router (applications s this))) @
      concat (map (\<lambda>c. map (\<lambda>b. ([httpMethod b], basePath (annotations (prototype c)) @ path b))
                         (routes (annotations (prototype c)))) ?cs)"
    by (simp only: initialize_stack map_append layers_registered length_upt add_diff_cancel_left')
  have st2: "map (\<lambda>l. (methods l, layer_path l)) (stack (router (applications ?s2 this))) =
      map (\<lambda>l. (methods l, layer_path l)) (stack (router (applications ?s1 this))) @
      concat (map (\<lambda>c. map (\<lambda>b. ([httpMethod b], basePath (annotations (prototype c)) @ path b))
                         (routes (annotations (prototype c)))) ?cs)"
    by (simp only: initialize_stack [of this ?s1] cs1 map_append layers_registered length_upt
        add_diff_cancel_left')
  have ne: "?s2 \<noteq> ?s1" if "?cs \<noteq> []"
  proof
    assume "?s2 = ?s1"
    then have "next_ref ?s2 = next_ref ?s1" by simp
    with n1 n2 that show False by simp
  qed
  show ?thesis
    unfolding Let_def
    apply (intro conjI)
    subgoal by (rule st1)
    subgoal by (simp only: st2 st1 append_assoc)
    subgoal by (simp only: t1 news)
    subgoal by (simp only: t2 news)
    subgoal using ne by blast
    done
qed

theorem initialize_twice_witness:
  "controllers (applications (snd (new_Application example_config (process (config_json ''9191'')))) 0) \<noteq> [] \<and>
   map (\<lambda>l. (methods l, layer_path l))
     (stack (router (applications (snd (initialize 0 (snd (example_app ''9191'')))) 0))) =
     [([''get''], ''/users/''), ([''post''], ''/users/''), ([''get''], ''/hello/world''),
      ([''get''], ''/users/''), ([''post''], ''/users/''), ([''get''], ''/hello/world'')] \<and>
   [e \<leftarrow> drop (length (trace (snd (example_app ''9191''))))
            (trace (snd (initialize 0 (snd (example_app ''9191''))))). \<exists>c r. e = New_controller c r] =
     [New_controller UserController 3, New_controller HelloWorldController 4] \<and>
   snd (initialize 0 (snd (example_app ''9191''))) \<noteq> snd (example_app ''9191'')"
  using initialize_twice [of "snd (new_Application example_config (process (config_json ''9191'')))" 0]
  by (simp add: example_app_initialize example_new_fields Let_def UserController_def
      HelloWorldController_def upt_conv_Cons)

text \<open>
  C7: every call of \<open>start()\<close> mounts the middleware of the router on the HTTP app,
  \<open>routes()\<close> first and \<open>allowedMethods()\<close> second, before it opens the listening socket:
  the calls it adds to the trace begin with the two \<open>use\<close> and then the one \<open>listen\<close>, and
  the two middlewares are appended to those of the app whether \<open>listen\<close> throws or not.
\<close>

theorem start_mounts_before_listen:
  "trace (snd (start port_arg this s)) =
     trace s @ [Use (Routes this), Use (AllowedMethods this),
                Listen (usedPort (port_default port_arg) this s)] @
     (if listen_throws s (usedPort (port_default port_arg) this s) then []
      else [Info (logger (applications s this))
              (Started (usedPort (port_default port_arg) this s) (getAvailableRoutes this s))]) \<and>
   middleware (app (applications (snd (start port_arg this s)) this)) =
     middleware (app (applications s this)) @ [Routes this, AllowedMethods this]"
  by (simp only: start_trace start_middleware simp_thms)

theorem start_mounts_before_listen_witness:
  "drop (length (trace (snd (example_app ''9191''))))
        (trace (snd (start None 0 (snd (example_app ''9191''))))) =
     [Use (Routes 0), Use (AllowedMethods 0), Listen (Num 9191),
      Info Console (Started (Num 9191) (getAvailableRoutes 0 (snd (example_app ''9191''))))] \<and>
   middleware (app (applications (snd (start None 0 (snd (example_app ''9191'')))) 0)) =
     middleware (app (applications (snd (example_app ''9191'')) 0)) @ [Routes 0, AllowedMethods 0]"
  using start_mounts_before_listen [of None 0 "snd (example_app ''9191'')"]
  by (simp add: port_defs)

text \<open>
  C8: when \<open>propertiesPath\<close> is omitted from the configuration, the Properties loader is
  constructed with the path \<open>/haru.config.json\<close>, and the properties of the Application are
  those of that file; when \<open>controllers\<close> is omitted the controller list is empty; when
  \<open>logger\<close> is omitted the console is the logger of the Application and of its Properties.
\<close>

theorem constructor_defaults:
  "(cfg_propertiesPath cfg = None \<longrightarrow>
      hd (drop (length (trace s)) (trace (snd (new_Application cfg s)))) =
        New_Properties ''/haru.config.json'' (case cfg_logger cfg of None \<Rightarrow> Console | Some l \<Rightarrow> l) \<and>
      properties (applications (snd (new_Application cfg s)) (fst (new_Application cfg s))) =
        (case files s ''/haru.config.json'' of Some (JsonObject kv) \<Rightarrow> kv | _ \<Rightarrow> Map.empty)) \<and>
   (cfg_controllers cfg = None \<longrightarrow>
      controllers (applications (snd (new_Application cfg s)) (fst (new_Application cfg s))) = []) \<and>
   (cfg_logger cfg = None \<longrightarrow>
      logger (applications (snd (new_Application cfg s)) (fst (new_Application cfg s))) = Console \<and>
      (\<exists>propertiesPath. hd (drop (length (trace s)) (trace (snd (new_Application cfg s)))) =
         New_Properties propertiesPath Console))"
proof -
  let ?path = "case cfg_propertiesPath cfg of None \<Rightarrow> ''/haru.config.json'' | Some p \<Rightarrow> p"
  let ?lg = "case cfg_logger cfg of None \<Rightarrow> Console | Some l \<Rightarrow> l"
  let ?s1 = "s\<lparr>next_ref := Suc (next_ref s)\<rparr>"
  obtain props s2 where np: "new_Properties ?path ?lg ?s1 = (props, s2)"
    by (cases "new_Properties ?path ?lg ?s1")
  have app: "new_Application cfg s =
      (next_ref s, s2\<lparr>applications := (applications s2)(next_ref s :=
         \<lparr>app = \<lparr>middleware = []\<rparr>, router = \<lparr>stack = []\<rparr>,
          controllers = (case cfg_controllers cfg of None \<Rightarrow> [] | Some l \<Rightarrow> l),
          properties = props, logger = ?lg, server = None\<rparr>)\<rparr>)"
    by (simp add: new_Application_def alloc_def Let_def np)
  have tr: "hd (drop (length (trace s)) (trace s2)) = New_Properties ?path ?lg"
    using new_Properties_trace_hd [of ?s1 ?path ?lg] by (simp add: np)
  have pr: "props = (case files s ?path of Some (JsonObject kv) \<Rightarrow> kv | _ \<Rightarrow> Map.empty)"
    using new_Properties_props [of ?path ?lg ?s1] by (simp add: np)
  show ?thesis
    using tr pr by (auto simp: app)
qed

theorem constructor_defaults_witness:
  "hd (trace (snd (new_Application
        \<lparr>cfg_propertiesPath = None, cfg_controllers = None, cfg_logger = None\<rparr> (process Map.empty)))) =
     New_Properties ''/haru.config.json'' Console \<and>
   controllers (applications (snd (new_Application
        \<lparr>cfg_propertiesPath = None, cfg_controllers = None, cfg_logger = None\<rparr> (process Map.empty))) 0) = [] \<and>
   logger (applications (snd (new_Application
        \<lparr>cfg_propertiesPath = None, cfg_controllers = None, cfg_logger = None\<rparr> (process Map.empty))) 0) =
     Console"
  using constructor_defaults
    [of "\<lparr>cfg_propertiesPath = None, cfg_controllers = None, cfg_logger = None\<rparr>" "process Map.empty"]
  by (simp add: example_defs)

text \<open>
  C9: for a Properties instance whose file is missing or cannot be parsed as JSON,
  construction returns (it does not throw), one warning is logged via the supplied logger,
  the property set is empty, and every later \<open>get(key)\<close>, \<open>get('port')\<close> among them,
  returns \<open>undefined\<close>.
\<close>

theorem properties_fail_open:
  "files s propertiesPath = None \<or> files s propertiesPath = Some Unparsable \<Longrightarrow>
   fst (new_Properties propertiesPath lg s) = Map.empty \<and>
   trace (snd (new_Properties propertiesPath lg s)) =
     trace s @ [New_Properties propertiesPath lg, Warn lg (PropertiesWarning propertiesPath)] \<and>
   (\<forall>key. Properties_get (fst (new_Properties propertiesPath lg s)) key = None) \<and>
   Properties_get (fst (new_Properties propertiesPath lg s)) ''port'' = None"
  by (auto simp: new_Properties_def emit_simps Let_def Properties_get_def)

theorem properties_fail_open_witness:
  "files (process [''./broken.json'' \<mapsto> Unparsable]) ''./app.config.json'' = None \<and>
   Properties_get (fst (new_Properties ''./app.config.json'' Console
      (process [''./broken.json'' \<mapsto> Unparsable]))) ''port'' = None \<and>
   trace (snd (new_Properties ''./app.config.json'' Console
      (process [''./broken.json'' \<mapsto> Unparsable]))) =
     [New_Properties ''./app.config.json'' Console,
      Warn Console (PropertiesWarning ''./app.config.json'')] \<and>
   files (process [''./broken.json'' \<mapsto> Unparsable]) ''./broken.json'' = Some Unparsable \<and>
   Properties_get (fst (new_Properties ''./broken.json'' (Logger 0)
      (process [''./broken.json'' \<mapsto> Unparsable]))) ''port'' = None \<and>
   trace (snd (new_Properties ''./broken.json'' (Logger 0)
      (process [''./broken.json'' \<mapsto> Unparsable]))) =
     [New_Properties ''./broken.json'' (Logger 0),
      Warn (Logger 0) (PropertiesWarning ''./broken.json'')]"
  using properties_fail_open [of "process [''./broken.json'' \<mapsto> Unparsable]" "''./app.config.json''" Console]
    properties_fail_open [of "process [''./broken.json'' \<mapsto> Unparsable]" "''./broken.json''" "Logger 0"]
  by (simp add: process_def Properties_get_def)

text \<open>
  C10: when \<open>properties.get('port')\<close> returns the empty string, \<open>start(port)\<close> falls back to
  the port argument, as for an absent property; when it returns a string that is not empty
  and does not parse as an integer, there is no fallback and \<open>NaN\<close> is handed to \<open>listen\<close>
  in place of the argument. In both cases the port named is the only one \<open>listen\<close> is
  called with, the verdict of \<open>listen\<close> on that port decides whether \<open>start\<close> returns or
  rejects, and when it returns \<open>this.server\<close> is a new server bound to that port; when
  \<open>listen\<close> refuses \<open>NaN\<close>, no server is stored or created.
\<close>

theorem start_port_fallback:
  "(Properties_get (properties (applications s this)) ''port'' = Some '''' \<longrightarrow>
      take 3 (drop (length (trace s)) (trace (snd (start port_arg this s)))) =
        [Use (Routes this), Use (AllowedMethods this),
         Listen (case port_arg of None \<Rightarrow> Num 8080 | Some a \<Rightarrow> a)] \<and>
      (\<forall>q. Listen q \<in> set (drop (length (trace s)) (trace (snd (start port_arg this s)))) \<longrightarrow>
           q = (case port_arg of None \<Rightarrow> Num 8080 | Some a \<Rightarrow> a)) \<and>
      fst (start port_arg this s) =
        (if listen_throws s (case port_arg of None \<Rightarrow> Num 8080 | Some a \<Rightarrow> a)
         then Inl (ListenError (case port_arg of None \<Rightarrow> Num 8080 | Some a \<Rightarrow> a)) else Inr ()) \<and>
      (fst (start port_arg this s) = Inr () \<longrightarrow>
         server (applications (snd (start port_arg this s)) this) = Some (next_ref s) \<and>
         servers (snd (start port_arg this s)) (next_ref s) =
           \<lparr>bound_port = (case port_arg of None \<Rightarrow> Num 8080 | Some a \<Rightarrow> a), listening = True\<rparr>)) \<and>
   (\<forall>p. Properties_get (properties (applications s this)) ''port'' = Some p \<and> p \<noteq> [] \<and>
        parseInt10 p = NaN \<longrightarrow>
      take 3 (drop (length (trace s)) (trace (snd (start port_arg this s)))) =
        [Use (Routes this), Use (AllowedMethods this), Listen NaN] \<and>
      (\<forall>q. Listen q \<in> set (drop (length (trace s)) (trace (snd (start port_arg this s)))) \<longrightarrow>
           q = NaN) \<and>
      fst (start port_arg this s) =
        (if listen_throws s NaN then Inl (ListenError NaN) else Inr ()) \<and>
      (fst (start port_arg this s) = Inr () \<longrightarrow>
         server (applications (snd (start port_arg this s)) this) = Some (next_ref s) \<and>
         servers (snd (start port_arg this s)) (next_ref s) =
           \<lparr>bound_port = NaN, listening = True\<rparr>) \<and>
      (fst (start port_arg this s) \<noteq> Inr () \<longrightarrow>
         server (applications (snd (start port_arg this s)) this) = server (applications s this) \<and>
         servers (snd (start port_arg this s)) = servers s))"
proof (intro conjI impI allI)
  assume e: "Properties_get (properties (applications s this)) ''port'' = Some ''''"
  let ?arg = "case port_arg of None \<Rightarrow> Num 8080 | Some a \<Rightarrow> a"
  have P: "usedPort (port_default port_arg) this s = ?arg"
    using e by (simp add: usedPort_def port_default_def getPortFromProperties_def)
  show "take 3 (drop (length (trace s)) (trace (snd (start port_arg this s)))) =
        [Use (Routes this), Use (AllowedMethods this), Listen ?arg]"
    by (simp add: start_trace P)
  show "fst (start port_arg this s) =
        (if listen_throws s ?arg then Inl (ListenError ?arg) else Inr ())"
    by (simp only: start_result P)
  {
    fix q assume "Listen q \<in> set (drop (length (trace s)) (trace (snd (start port_arg this s))))"
    then show "q = ?arg"
      by (simp add: start_trace P split: if_splits)
  }
  {
    assume ok: "fst (start port_arg this s) = Inr ()"
    then have nt: "\<not> listen_throws s (usedPort (port_default port_arg) this s)"
      by (simp add: start_result split: if_splits)
    show "server (applications (snd (start port_arg this s)) this) = Some (next_ref s)"
      using start_server [OF nt] by simp
    show "servers (snd (start port_arg this s)) (next_ref s) = \<lparr>bound_port = ?arg, listening = True\<rparr>"
      using start_server [OF nt] by (simp add: P)
  }
next
  fix p
  assume "Properties_get (properties (applications s this)) ''port'' = Some p \<and> p \<noteq> [] \<and>
        parseInt10 p = NaN"
  then have P: "usedPort (port_default port_arg) this s = NaN"
    by (simp add: usedPort_def port_default_def getPortFromProperties_def)
  show "take 3 (drop (length (trace s)) (trace (snd (start port_arg this s)))) =
        [Use (Routes this), Use (AllowedMethods this), Listen NaN]"
    by (simp add: start_trace P)
  show "fst (start port_arg this s) = (if listen_throws s NaN then Inl (ListenError NaN) else Inr ())"
    by (simp only: start_result P)
  {
    fix q assume "Listen q \<in> set (drop (length (trace s)) (trace (snd (start port_arg this s))))"
    then show "q = NaN"
      by (simp add: start_trace P split: if_splits)
  }
  {
    assume ok: "fst (start port_arg this s) = Inr ()"
    then have nt: "\<not> listen_throws s (usedPort (port_default port_arg) this s)"
      by (simp add: start_result split: if_splits)
    show "server (applications (snd (start port_arg this s)) this) = Some (next_ref s)"
      using start_server [OF nt] by simp
    show "servers (snd (start port_arg this s)) (next_ref s) = \<lparr>bound_port = NaN, listening = True\<rparr>"
      using start_server [OF nt] by (simp add: P)
  }
  {
    assume "fst (start port_arg this s) \<noteq> Inr ()"
    then have t: "listen_throws s (usedPort (port_default port_arg) this s)"
      by (simp add: start_result split: if_splits)
    show "server (applications (snd (start port_arg this s)) this) = server (applications s this)"
      using start_server_throws [OF t] by simp
    show "servers (snd (start port_arg this s)) = servers s"
      using start_server_throws [OF t] by simp
  }
qed

theorem start_port_fallback_witness:
  "take 3 (drop (length (trace (snd (example_app ''''))))
        (trace (snd (start (Some (Num 3000)) 0 (snd (example_app '''')))))) =
     [Use (Routes 0), Use (AllowedMethods 0), Listen (Num 3000)] \<and>
   fst (start (Some (Num 3000)) 0 (snd (example_app ''''))) = Inr () \<and>
   servers (snd (start (Some (Num 3000)) 0 (snd (example_app '''')))) 3 =
     \<lparr>bound_port = Num 3000, listening = True\<rparr> \<and>
   parseInt10 ''http'' = NaN \<and>
   take 3 (drop (length (trace (snd (example_app ''http''))))
        (trace (snd (start (Some (Num 3000)) 0 (snd (example_app ''http'')))))) =
     [Use (Routes 0), Use (AllowedMethods 0), Listen NaN] \<and>
   fst (start (Some (Num 3000)) 0 (snd (example_app ''http''))) = Inl (ListenError NaN) \<and>
   server (applications (snd (start (Some (Num 3000)) 0 (snd (example_app ''http'')))) 0) = None"
  using start_port_fallback [of "snd (example_app '''')" 0 "Some (Num 3000)"]
    start_port_fallback [of "snd (example_app ''http'')" 0 "Some (Num 3000)"]
  by (simp add: Properties_get_def example_app_fields parse_defs port_in_range_def Let_def)

end
